theory Spec2Isabelle
  imports Main
begin

section \<open>JavaScript values\<close>

text \<open>
  The helpers of linkedart.js read JSON-LD documents, so a value is a JSON value or
  \<open>undefined\<close>. Numbers are the integers (documents carry identifiers and counts;
  the helpers only test a number for being zero). A string is a list of characters of
  the Latin-1 range. An object lists its own properties; the first binding of a name is
  the one that counts. Two object or array values found at different places of a
  document are different references, as they are after \<open>JSON.parse\<close>.
\<close>

datatype jsval =
    JUndefined
  | JNull
  | JBool bool
  | JNum int
  | JStr string
  | JArr "jsval list"
  | JObj "(string \<times> jsval) list"

text \<open>The only exception the helpers can raise.\<close>

datatype error = TypeError

text \<open>\<open>v == undefined\<close>: loose equality with \<open>undefined\<close> holds for \<open>undefined\<close> and \<open>null\<close> only.\<close>

definition is_nullish :: "jsval \<Rightarrow> bool" where
  "is_nullish v = (v = JUndefined \<or> v = JNull)"

text \<open>\<open>typeof v === "string"\<close>.\<close>

definition is_string :: "jsval \<Rightarrow> bool" where
  "is_string v = (case v of JStr _ \<Rightarrow> True | _ \<Rightarrow> False)"

text \<open>The truth value of \<open>v\<close> in a condition (\<open>ToBoolean\<close>).\<close>

definition truthy :: "jsval \<Rightarrow> bool" where
  "truthy v =
     (case v of
        JUndefined \<Rightarrow> False
      | JNull \<Rightarrow> False
      | JBool b \<Rightarrow> b
      | JNum n \<Rightarrow> n \<noteq> 0
      | JStr s \<Rightarrow> s \<noteq> []
      | JArr _ \<Rightarrow> True
      | JObj _ \<Rightarrow> True)"

text \<open>
  \<open>v.k\<close> on a value that is neither \<open>undefined\<close> nor \<open>null\<close>, for a property name
  that no built-in prototype defines (\<open>language\<close>, \<open>id\<close>, \<open>part\<close>, \<open>classified_as\<close>,
  \<open>produced_by\<close>, \<open>carried_out_by\<close>): an object gives its own property, every other
  value gives \<open>undefined\<close>.
\<close>

definition get_field :: "jsval \<Rightarrow> string \<Rightarrow> jsval" where
  "get_field v k =
     (case v of
        JObj props \<Rightarrow> (case map_of props k of Some x \<Rightarrow> x | None \<Rightarrow> JUndefined)
      | _ \<Rightarrow> JUndefined)"

text \<open>
  SameValueZero, the comparison of \<open>Set.prototype.add\<close>, on two values
  taken from different places of a document: primitives are compared by value, objects
  and arrays by reference, and two different places never hold the same reference.
\<close>

definition same_value_zero :: "jsval \<Rightarrow> jsval \<Rightarrow> bool" where
  "same_value_zero a b =
     (case a of
        JArr _ \<Rightarrow> False
      | JObj _ \<Rightarrow> False
      | _ \<Rightarrow> a = b)"

text \<open>\<open>set.add(x)\<close> on a \<open>Set\<close> kept as the list of its members in insertion order.\<close>

definition set_add :: "jsval list \<Rightarrow> jsval \<Rightarrow> jsval list" where
  "set_add members x = (if list_ex (\<lambda>y. same_value_zero y x) members then members else members @ [x])"

section \<open>Strings\<close>

text \<open>
  \<open>String.prototype.toLowerCase\<close> on Latin-1: the capital letters are
  \<open>A\<close>..\<open>Z\<close> (65..90) and U+00C0..U+00DE without the multiplication sign U+00D7; the
  small letter is 32 further.
\<close>

definition is_upper :: "char \<Rightarrow> bool" where
  "is_upper c =
     (let n = (of_char c :: nat)
      in (65 \<le> n \<and> n \<le> 90) \<or> (192 \<le> n \<and> n \<le> 222 \<and> n \<noteq> 215))"

definition to_lower_char :: "char \<Rightarrow> char" where
  "to_lower_char c = (if is_upper c then char_of ((of_char c :: nat) + 32) else c)"

definition toLowerCase :: "string \<Rightarrow> string" where
  "toLowerCase s = map to_lower_char s"

text \<open>The character class \<open>[a-zA-Z]\<close>.\<close>

definition is_ascii_letter :: "char \<Rightarrow> bool" where
  "is_ascii_letter c =
     (let n = (of_char c :: nat)
      in (65 \<le> n \<and> n \<le> 90) \<or> (97 \<le> n \<and> n \<le> 122))"

text \<open>
  \<open>s.match(/\/[a-zA-Z]+$/)\<close> finds a match: a slash followed by one or more letters
  that reach the end of the string. The letters after the slash are then the longest
  run of letters at the end.
\<close>

definition matches_trailing_token :: "string \<Rightarrow> bool" where
  "matches_trailing_token s =
     (takeWhile is_ascii_letter (rev s) \<noteq> [] \<and>
      (case dropWhile is_ascii_letter (rev s) of [] \<Rightarrow> False | c # _ \<Rightarrow> c = CHR ''/''))"

text \<open>\<open>s.lastIndexOf(c)\<close> for a single character: \<open>-1\<close> when \<open>c\<close> does not occur.\<close>

definition lastIndexOf :: "string \<Rightarrow> char \<Rightarrow> int" where
  "lastIndexOf s c =
     (if c \<in> set s then int (length s) - 1 - int (length (takeWhile (\<lambda>x. x \<noteq> c) (rev s)))
      else - 1)"

text \<open>\<open>s.substring(start)\<close>: a negative start counts as 0, one past the end gives the empty string.\<close>

definition substring :: "string \<Rightarrow> int \<Rightarrow> string" where
  "substring s start = drop (nat start) s"

section \<open>Loose equality with \<open>false\<close>\<close>

text \<open>
  \<open>v == false\<close> compares \<open>v\<close> with the number 0: \<open>false\<close> becomes 0, a boolean \<open>v\<close>
  is compared as a boolean, a string is read as a numeric literal (\<open>StringToNumber\<close>),
  an object or array is first turned into a string (\<open>ToPrimitive\<close>, which ends in
  \<open>toString\<close>), and \<open>undefined\<close> and \<open>null\<close> are equal to nothing but each other.
\<close>

definition is_js_whitespace :: "char \<Rightarrow> bool" where
  "is_js_whitespace c =
     (let n = (of_char c :: nat)
      in n = 9 \<or> n = 10 \<or> n = 11 \<or> n = 12 \<or> n = 13 \<or> n = 32 \<or> n = 160)"

definition trim :: "string \<Rightarrow> string" where
  "trim s = rev (dropWhile is_js_whitespace (rev (dropWhile is_js_whitespace s)))"

definition is_digit :: "char \<Rightarrow> bool" where
  "is_digit c = (let n = (of_char c :: nat) in 48 \<le> n \<and> n \<le> 57)"

definition decimal_value :: "string \<Rightarrow> int" where
  "decimal_value ds = foldl (\<lambda>acc c. 10 * acc + ((of_char c :: int) - 48)) 0 ds"

text \<open>\<open>SignedInteger\<close>: digits with an optional sign; \<open>None\<close> when the text is not one.\<close>

definition signed_integer :: "string \<Rightarrow> int option" where
  "signed_integer s =
     (case s of
        [] \<Rightarrow> None
      | c # cs \<Rightarrow>
          if c = CHR ''-'' then
            (if cs \<noteq> [] \<and> list_all is_digit cs then Some (- decimal_value cs) else None)
          else if c = CHR ''+'' then
            (if cs \<noteq> [] \<and> list_all is_digit cs then Some (decimal_value cs) else None)
          else if list_all is_digit s then Some (decimal_value s)
          else None)"

text \<open>
  The number \<open>m * 10^e\<close> rounds to the double 0: it is 0, or it is at most \<open>2^-1075\<close>, half
  of the least positive double (the tie goes to the even neighbour, which is 0).
\<close>

definition rounds_to_zero :: "int \<Rightarrow> int \<Rightarrow> bool" where
  "rounds_to_zero m e = (m = 0 \<or> (e < 0 \<and> m * 2 ^ 1075 \<le> 10 ^ nat (- e)))"

text \<open>
  \<open>StrDecimalLiteral\<close>: an optional sign, then \<open>Infinity\<close> or digits with an optional
  fraction and an optional exponent; at least one digit before the exponent.
\<close>

definition decimal_literal_is_zero :: "string \<Rightarrow> bool" where
  "decimal_literal_is_zero s =
     (let u = (case s of [] \<Rightarrow> [] | c # cs \<Rightarrow> if c = CHR ''+'' \<or> c = CHR ''-'' then cs else s);
          ip = takeWhile is_digit u;
          r1 = dropWhile is_digit u;
          has_dot = (case r1 of [] \<Rightarrow> False | c # _ \<Rightarrow> c = CHR ''.'');
          fp = (if has_dot then takeWhile is_digit (tl r1) else []);
          r2 = (if has_dot then dropWhile is_digit (tl r1) else r1);
          ex = (case r2 of
                  [] \<Rightarrow> Some 0
                | c # cs \<Rightarrow> if c = CHR ''e'' \<or> c = CHR ''E'' then signed_integer cs else None)
      in if u = ''Infinity'' then False
         else (case ex of
                 None \<Rightarrow> False
               | Some x \<Rightarrow>
                   (ip \<noteq> [] \<or> fp \<noteq> []) \<and>
                   rounds_to_zero (decimal_value (ip @ fp)) (x - int (length fp))))"

definition is_digit_of :: "char \<Rightarrow> char \<Rightarrow> bool" where
  "is_digit_of radix c =
     (let n = (of_char c :: nat)
      in if radix = CHR ''b'' \<or> radix = CHR ''B'' then 48 \<le> n \<and> n \<le> 49
         else if radix = CHR ''o'' \<or> radix = CHR ''O'' then 48 \<le> n \<and> n \<le> 55
         else if radix = CHR ''x'' \<or> radix = CHR ''X'' then
           (48 \<le> n \<and> n \<le> 57) \<or> (65 \<le> n \<and> n \<le> 70) \<or> (97 \<le> n \<and> n \<le> 102)
         else False)"

text \<open>
  \<open>NonDecimalIntegerLiteral\<close>: \<open>0b\<close>, \<open>0o\<close> or \<open>0x\<close> (either case) and one or more
  digits of that radix, with no sign; its value is 0 when every digit is \<open>0\<close>.
\<close>

definition nondecimal_literal_is_zero :: "string \<Rightarrow> bool" where
  "nondecimal_literal_is_zero s =
     (case s of
        z # r # ds \<Rightarrow>
          z = CHR ''0'' \<and> ds \<noteq> [] \<and> list_all (is_digit_of r) ds \<and> list_all (\<lambda>d. d = CHR ''0'') ds
      | _ \<Rightarrow> False)"

text \<open>\<open>StringToNumber(s)\<close> is 0: the trimmed text is empty or a numeric literal of value 0.\<close>

definition string_to_number_is_zero :: "string \<Rightarrow> bool" where
  "string_to_number_is_zero s =
     (let t = trim s in t = [] \<or> nondecimal_literal_is_zero t \<or> decimal_literal_is_zero t)"

text \<open>
  \<open>Number::toString\<close> of an integer, in decimal. (From \<open>10^21\<close> on JavaScript prints an
  exponent; both texts denote the same number, which is all the comparison reads.)
\<close>

fun nat_digits :: "nat \<Rightarrow> string" where
  "nat_digits n =
     (if n < 10 then [char_of (48 + n)] else nat_digits (n div 10) @ [char_of (48 + n mod 10)])"

definition number_to_string :: "int \<Rightarrow> string" where
  "number_to_string n = (if n < 0 then CHR ''-'' # nat_digits (nat (- n)) else nat_digits (nat n))"

fun join_comma :: "string list \<Rightarrow> string" where
  "join_comma [] = []"
| "join_comma [s] = s"
| "join_comma (s # t # ts) = s @ '','' @ join_comma (t # ts)"

text \<open>
  \<open>ToString\<close>. An array joins its elements with commas, \<open>undefined\<close> and \<open>null\<close>
  elements as the empty text. A plain object prints as \<open>[object Object]\<close>.
\<close>

fun to_string :: "jsval \<Rightarrow> string" where
  "to_string JUndefined = ''undefined''"
| "to_string JNull = ''null''"
| "to_string (JBool b) = (if b then ''true'' else ''false'')"
| "to_string (JNum n) = number_to_string n"
| "to_string (JStr s) = s"
| "to_string (JArr xs) =
     join_comma (map (\<lambda>x. if x = JUndefined \<or> x = JNull then [] else to_string x) xs)"
| "to_string (JObj props) = ''[object Object]''"

text \<open>
  The conversion of an object to a primitive calls its \<open>valueOf\<close> and \<open>toString\<close>
  when they are functions. A document value is never a function, so an object with an own
  property \<open>toString\<close> hides the inherited method and has nothing left to call: the
  conversion throws a TypeError. (The inherited \<open>valueOf\<close> returns the object itself,
  and an own \<open>valueOf\<close> is skipped.) An array converts each of its elements.
\<close>

fun convertible :: "jsval \<Rightarrow> bool" where
  "convertible (JArr xs) = list_all convertible xs"
| "convertible (JObj props) = (map_of props ''toString'' = None)"
| "convertible v = True"

definition loosely_equals_false :: "jsval \<Rightarrow> error + bool" where
  "loosely_equals_false v =
     (case v of
        JUndefined \<Rightarrow> Inr False
      | JNull \<Rightarrow> Inr False
      | JBool b \<Rightarrow> Inr (b = False)
      | JNum n \<Rightarrow> Inr (n = 0)
      | JStr s \<Rightarrow> Inr (string_to_number_is_zero s)
      | _ \<Rightarrow> if convertible v then Inr (string_to_number_is_zero (to_string v)) else Inl TypeError)"

section \<open>LanguageHelpers\<close>

definition DEFAULT_LANGUAGE_LOOKUP :: "(string \<times> string) list" where
  "DEFAULT_LANGUAGE_LOOKUP =
     [(''en'', ''http://vocab.getty.edu/aat/300388277''),
      (''es'', ''http://vocab.getty.edu/aat/300389311''),
      (''fr'', ''http://vocab.getty.edu/aat/300388306'')]"

definition NO_LANGUAGE :: string where
  "NO_LANGUAGE = ''NO_LANGUAGE''"

text \<open>
  The \<open>languageOptions\<close> argument with its three expected attributes. An attribute that
  is not set reads as \<open>undefined\<close>. \<open>lookupMap\<close> is \<open>None\<close> when it is not set or set to
  a value that counts as false, and otherwise a plain object (an object literal or parsed
  JSON) from language codes to identifier strings. The argument itself is \<open>None\<close> when
  the caller leaves it out.
\<close>

record language_options =
  fallbackLanguage :: jsval
  includeItemsWithNoLanguage :: jsval
  lookupMap :: "(string \<times> string) list option"

text \<open>The empty object \<open>{}\<close>, the default of \<open>doesObjectLanguageMatch\<close>.\<close>

definition empty_options :: language_options where
  "empty_options =
     \<lparr>fallbackLanguage = JUndefined, includeItemsWithNoLanguage = JUndefined, lookupMap = None\<rparr>"

text \<open>
  What a language identifier normalizes to: a string, or a built-in of the JavaScript
  runtime. The lookup table is a plain object, so \<open>lookupMap[lang]\<close> also finds the
  properties every plain object inherits from \<open>Object.prototype\<close>; \<open>Inherited k\<close> is
  the built-in found under the name \<open>k\<close> (the function \<open>Object\<close> under
  \<open>constructor\<close>). Different names hold different built-ins.
\<close>

datatype langid = Text string | Inherited string

definition object_prototype_names :: "string list" where
  "object_prototype_names =
     [''constructor'', ''hasOwnProperty'', ''isPrototypeOf'', ''propertyIsEnumerable'',
      ''toLocaleString'', ''toString'', ''valueOf'', ''__proto__'', ''__defineGetter__'',
      ''__defineSetter__'', ''__lookupGetter__'', ''__lookupSetter__'']"

text \<open>\<open>lookupMap[lang]\<close>; \<open>None\<close> is \<open>undefined\<close>.\<close>

definition property_lookup :: "(string \<times> string) list \<Rightarrow> string \<Rightarrow> langid option" where
  "property_lookup table k =
     (case map_of table k of
        Some v \<Rightarrow> Some (Text v)
      | None \<Rightarrow> if k \<in> set object_prototype_names then Some (Inherited k) else None)"

text \<open>
  The two steps of \<open>normalizeLanguageId\<close> that turn the identifier into the code to
  look up: \<open>lang_id.toLowerCase()\<close>, then, when the text ends in a slash and letters,
  \<open>lang.substring(lang.lastIndexOf("/") + 1)\<close>.
\<close>

definition simplified_code :: "string \<Rightarrow> string" where
  "simplified_code lang_id =
     (let lang = toLowerCase lang_id
      in if matches_trailing_token lang
         then substring lang (lastIndexOf lang CHR ''/'' + 1)
         else lang)"

text \<open>
  \<open>normalizeLanguageId(lang_id, languageOptions)\<close>. Only a string has a method
  \<open>toLowerCase\<close>: on every other value that is not \<open>undefined\<close> or \<open>null\<close> the call
  \<open>lang_id.toLowerCase()\<close> throws a TypeError.
\<close>

definition normalizeLanguageId :: "jsval \<Rightarrow> language_options option \<Rightarrow> error + langid" where
  "normalizeLanguageId lang_id languageOptions =
     (if is_nullish lang_id then Inr (Text NO_LANGUAGE)
      else
        let table =
              (case languageOptions of
                 None \<Rightarrow> DEFAULT_LANGUAGE_LOOKUP
               | Some opts \<Rightarrow>
                   (case lookupMap opts of None \<Rightarrow> DEFAULT_LANGUAGE_LOOKUP | Some m \<Rightarrow> m))
        in (case lang_id of
              JStr s \<Rightarrow>
                (case property_lookup table (simplified_code s) of
                   Some lookup \<Rightarrow> Inr lookup
                 | None \<Rightarrow> Inr (Text s))
            | _ \<Rightarrow> Inl TypeError))"

text \<open>The body of the \<open>forEach\<close> callback of \<open>getLanguageId\<close>.\<close>

definition add_language :: "jsval list \<Rightarrow> jsval \<Rightarrow> jsval list" where
  "add_language toReturn lang =
     (if is_nullish lang then set_add toReturn (JStr NO_LANGUAGE)
      else if is_string lang then set_add toReturn lang
      else if truthy (get_field lang ''id'') then set_add toReturn (get_field lang ''id'')
      else toReturn)"

text \<open>\<open>items.map((item) => normalizeLanguageId(item, languageOptions))\<close>: the first throw ends it.\<close>

fun normalize_each :: "jsval list \<Rightarrow> language_options option \<Rightarrow> error + langid list" where
  "normalize_each [] languageOptions = Inr []"
| "normalize_each (item # items) languageOptions =
     (case normalizeLanguageId item languageOptions of
        Inl e \<Rightarrow> Inl e
      | Inr v \<Rightarrow>
          (case normalize_each items languageOptions of
             Inl e \<Rightarrow> Inl e
           | Inr vs \<Rightarrow> Inr (v # vs)))"

text \<open>
  \<open>getLanguageId(obj, languageOptions)\<close>. Past the two early returns \<open>obj.language\<close> is
  neither \<open>undefined\<close>, \<open>null\<close> nor a string; only an array has a method \<open>forEach\<close>, so
  on a number, a boolean or an object \<open>obj.language.forEach(...)\<close> throws a TypeError.
\<close>

definition getLanguageId :: "jsval \<Rightarrow> language_options option \<Rightarrow> error + langid list" where
  "getLanguageId obj languageOptions =
     (if is_nullish obj \<or> is_nullish (get_field obj ''language'') then Inr [Text NO_LANGUAGE]
      else
        (case get_field obj ''language'' of
           JStr s \<Rightarrow>
             (case normalizeLanguageId (JStr s) languageOptions of
                Inl e \<Rightarrow> Inl e
              | Inr v \<Rightarrow> Inr [v])
         | JArr langs \<Rightarrow> normalize_each (foldl add_language [] langs) languageOptions
         | _ \<Rightarrow> Inl TypeError))"

text \<open>
  The condition of the fallback rule:
  \<open>languageOptions.fallbackLanguage != undefined && lang_ids.includes(normalizeLanguageId(...))\<close>.
\<close>

definition fallback_matches :: "language_options \<Rightarrow> langid list \<Rightarrow> error + bool" where
  "fallback_matches opts lang_ids =
     (if is_nullish (fallbackLanguage opts) then Inr False
      else (case normalizeLanguageId (fallbackLanguage opts) (Some opts) of
              Inl e \<Rightarrow> Inl e
            | Inr fallback \<Rightarrow> Inr (fallback \<in> set lang_ids)))"

text \<open>
  \<open>doesObjectLanguageMatch(object, language, languageOptions = {})\<close>;
  \<open>lang_ids.includes(x)\<close> is membership in the list.
\<close>

definition doesObjectLanguageMatch ::
  "jsval \<Rightarrow> jsval \<Rightarrow> language_options option \<Rightarrow> error + bool" where
  "doesObjectLanguageMatch object language languageOptions =
     (let opts = (case languageOptions of None \<Rightarrow> empty_options | Some given \<Rightarrow> given)
      in if is_nullish language then Inr True
         else
           (case getLanguageId object (Some opts) of
              Inl e \<Rightarrow> Inl e
            | Inr lang_ids \<Rightarrow>
                (case normalizeLanguageId language (Some opts) of
                   Inl e \<Rightarrow> Inl e
                 | Inr wanted \<Rightarrow>
                     if wanted \<in> set lang_ids then Inr True
                     else
                       (case fallback_matches opts lang_ids of
                          Inl e \<Rightarrow> Inl e
                        | Inr by_fallback \<Rightarrow>
                            if by_fallback then Inr True
                            else if Text NO_LANGUAGE \<in> set lang_ids \<or> length lang_ids = 0 then
                              (case loosely_equals_false (includeItemsWithNoLanguage opts) of
                                 Inl e \<Rightarrow> Inl e
                               | Inr opted_out \<Rightarrow> if opted_out then Inr False else Inr True)
                            else Inr False))))"

section \<open>Well-typed input\<close>

text \<open>
  The inputs the JSDoc of the helpers describes. A language identifier is a string, or
  absent. An entry of a \<open>language\<close> array is absent, a string, or a value whose \<open>id\<close>
  is a string or counts as false. A fragment is absent, or its \<open>language\<close> is absent, a
  string, or an array of such entries.
\<close>

definition string_or_absent :: "jsval \<Rightarrow> bool" where
  "string_or_absent v = (is_nullish v \<or> is_string v)"

definition language_entry_ok :: "jsval \<Rightarrow> bool" where
  "language_entry_ok lang =
     (is_nullish lang \<or> is_string lang \<or>
      (if truthy (get_field lang ''id'') then is_string (get_field lang ''id'') else True))"

definition language_attribute_ok :: "jsval \<Rightarrow> bool" where
  "language_attribute_ok fragment =
     (if is_nullish fragment then True
      else (case get_field fragment ''language'' of
              JUndefined \<Rightarrow> True
            | JNull \<Rightarrow> True
            | JStr _ \<Rightarrow> True
            | JArr langs \<Rightarrow> list_all language_entry_ok langs
            | _ \<Rightarrow> False))"

text \<open>An entry of a \<open>language\<close> array that puts a member into the \<open>Set\<close> of \<open>getLanguageId\<close>.\<close>

definition usable_entry :: "jsval \<Rightarrow> bool" where
  "usable_entry lang = (is_nullish lang \<or> is_string lang \<or> truthy (get_field lang ''id''))"

section \<open>ObjectHelpers and the helpers it imports\<close>

text \<open>
  Modelled from the spec: the values a field contributes to the flat result of the
  helpers of \<open>LinkedArtHelpers.js\<close> (a file that is not among the sources): nothing
  when the field is absent, the elements when it holds an array, and the value itself
  otherwise.
\<close>

definition as_array :: "jsval \<Rightarrow> jsval list" where
  "as_array v =
     (case v of
        JUndefined \<Rightarrow> []
      | JNull \<Rightarrow> []
      | JArr xs \<Rightarrow> xs
      | _ \<Rightarrow> [v])"

text \<open>
  Modelled from the spec: \<open>getSubfieldInsidePart\<close> of \<open>LinkedArtHelpers.js\<close>, which
  \<open>ObjectHelpers.js\<close> imports and which is not among the sources. The spec: if
  \<open>object[outerKey]\<close> is absent, return empty; collect the \<open>innerKey\<close> values found
  directly on \<open>object[outerKey]\<close>, and also those found on every element of
  \<open>object[outerKey].part\<close> (if present); always return a flat array, direct hits before
  nested \<open>part\<close> hits.
\<close>

definition getSubfieldInsidePart :: "jsval \<Rightarrow> string \<Rightarrow> string \<Rightarrow> jsval list" where
  "getSubfieldInsidePart object outerKey innerKey =
     (let outer = get_field object outerKey
      in if is_nullish outer then []
         else as_array (get_field outer innerKey) @
              concat (map (\<lambda>part. as_array (get_field part innerKey))
                        (as_array (get_field outer ''part''))))"

definition PRODUCED_BY :: string where
  "PRODUCED_BY = ''produced_by''"

definition CARRIED_OUT_BY :: string where
  "CARRIED_OUT_BY = ''carried_out_by''"

text \<open>\<open>getCarriedOutBy(object)\<close> of \<open>ObjectHelpers.js\<close>.\<close>

definition getCarriedOutBy :: "jsval \<Rightarrow> jsval list" where
  "getCarriedOutBy object = getSubfieldInsidePart object PRODUCED_BY CARRIED_OUT_BY"

text \<open>
  Modelled from the spec: the classification filter of \<open>LinkedArtHelpers.js\<close>, which is
  not among the sources. A classification reference is a bare identifier string or an
  object carrying an \<open>id\<close>. The identifier normalization of \<open>BasicHelpers.js\<close>
  (\<open>normalizeAatId\<close>) is not among the sources either and is the parameter \<open>norm\<close>.
\<close>

definition classification_id :: "jsval \<Rightarrow> string option" where
  "classification_id c =
     (case c of
        JStr s \<Rightarrow> Some s
      | JObj _ \<Rightarrow> (case get_field c ''id'' of JStr s \<Rightarrow> Some s | _ \<Rightarrow> None)
      | _ \<Rightarrow> None)"

text \<open>
  Modelled from the spec: the identifiers of the \<open>classified_as\<close> entries a value
  carries (the direct \<open>classified_as[].id\<close> values).
\<close>

definition classification_ids :: "jsval \<Rightarrow> string list" where
  "classification_ids v = List.map_filter classification_id (as_array (get_field v ''classified_as''))"

text \<open>
  Modelled from the spec: \<open>requestedIds\<close> is one identifier string or an array of
  identifier strings.
\<close>

definition requested_ids :: "jsval \<Rightarrow> string list" where
  "requested_ids r =
     (case r of
        JStr s \<Rightarrow> [s]
      | JArr xs \<Rightarrow> List.map_filter (\<lambda>x. case x of JStr s \<Rightarrow> Some s | _ \<Rightarrow> None) xs
      | _ \<Rightarrow> [])"

text \<open>
  Modelled from the spec: set membership of a normalized identifier of \<open>ids\<close> in the
  normalized requested identifiers (a match with any of them).
\<close>

definition matches_any :: "(string \<Rightarrow> string) \<Rightarrow> string list \<Rightarrow> string list \<Rightarrow> bool" where
  "matches_any norm ids requested = list_ex (\<lambda>i. norm i \<in> set (map norm requested)) ids"

text \<open>
  Modelled from the spec: the matching predicate for one entry, in its transitive form. A
  direct classification matches, or one of the entry's classifications itself carries a
  \<open>classified_as\<close> whose id matches (one level of indirection).
\<close>

definition classification_matches ::
  "(string \<Rightarrow> string) \<Rightarrow> jsval \<Rightarrow> string list \<Rightarrow> bool" where
  "classification_matches norm entry requested =
     (matches_any norm (classification_ids entry) requested \<or>
      list_ex (\<lambda>c. matches_any norm (classification_ids c) requested)
        (as_array (get_field entry ''classified_as'')))"

text \<open>
  Modelled from the spec: the filter keeps the entries whose classification matches and
  that satisfy \<open>doesObjectLanguageMatch\<close>; absent \<open>entries\<close> count as empty.
\<close>

definition filterByClassification ::
  "(string \<Rightarrow> string) \<Rightarrow> jsval \<Rightarrow> jsval \<Rightarrow> jsval \<Rightarrow> language_options option \<Rightarrow> jsval list" where
  "filterByClassification norm entries requestedIds language languageOptions =
     filter (\<lambda>entry. classification_matches norm entry (requested_ids requestedIds) \<and>
                     doesObjectLanguageMatch entry language languageOptions = Inr True)
       (as_array entries)"

section \<open>Facts about the model\<close>

text \<open>
  The pattern \<open>/\/[a-zA-Z]+$/\<close> matches exactly the strings that end in a slash and one
  or more letters, and the substring taken after the last slash is that run of letters.
\<close>

lemma slash_not_letter: "\<not> is_ascii_letter CHR ''/''"
  by code_simp

lemma takeWhile_run: "list_all P xs \<Longrightarrow> \<not> P y \<Longrightarrow> takeWhile P (xs @ y # ys) = xs"
  by (induction xs) auto

lemma dropWhile_run: "list_all P xs \<Longrightarrow> \<not> P y \<Longrightarrow> dropWhile P (xs @ y # ys) = y # ys"
  by (induction xs) auto

lemma matches_trailing_token_iff:
  "matches_trailing_token s \<longleftrightarrow>
     (\<exists>p t. s = p @ CHR ''/'' # t \<and> t \<noteq> [] \<and> list_all is_ascii_letter t)"
proof
  assume m: "matches_trailing_token s"
  define t where "t = takeWhile is_ascii_letter (rev s)"
  define r where "r = dropWhile is_ascii_letter (rev s)"
  from m have t: "t \<noteq> []" and "\<exists>r'. r = CHR ''/'' # r'"
    by (auto simp: matches_trailing_token_def t_def r_def split: list.splits)
  then obtain r' where r: "r = CHR ''/'' # r'" by blast
  have "rev s = t @ r"
    by (simp add: t_def r_def)
  then have "rev (rev s) = rev (t @ CHR ''/'' # r')"
    by (simp add: r)
  then have "s = rev r' @ CHR ''/'' # rev t"
    by simp
  moreover have "list_all is_ascii_letter (rev t)"
    by (simp add: t_def list_all_iff) (meson set_takeWhileD)
  ultimately show "\<exists>p t. s = p @ CHR ''/'' # t \<and> t \<noteq> [] \<and> list_all is_ascii_letter t"
    using t by (intro exI [of _ "rev r'"] exI [of _ "rev t"]) simp
next
  assume "\<exists>p t. s = p @ CHR ''/'' # t \<and> t \<noteq> [] \<and> list_all is_ascii_letter t"
  then obtain p t where s: "s = p @ CHR ''/'' # t" and t: "t \<noteq> []" "list_all is_ascii_letter t"
    by blast
  have "rev s = rev t @ CHR ''/'' # rev p"
    by (simp add: s)
  moreover from t have "list_all is_ascii_letter (rev t)"
    by (simp add: list_all_iff)
  ultimately have "takeWhile is_ascii_letter (rev s) = rev t"
      and "dropWhile is_ascii_letter (rev s) = CHR ''/'' # rev p"
    by (simp_all add: takeWhile_run dropWhile_run slash_not_letter)
  with t show "matches_trailing_token s"
    by (simp add: matches_trailing_token_def)
qed

lemma lastIndexOf_last:
  assumes "c \<notin> set t"
  shows "lastIndexOf (p @ c # t) c = int (length p)"
proof -
  from assms have "list_all (\<lambda>x. x \<noteq> c) (rev t)"
    by (auto simp: list_all_iff)
  then have "takeWhile (\<lambda>x. x \<noteq> c) (rev t @ c # rev p) = rev t"
    by (rule takeWhile_run) simp
  then show ?thesis
    by (simp add: lastIndexOf_def)
qed

lemma simplified_code_token:
  assumes "toLowerCase x = p @ CHR ''/'' # t" and "t \<noteq> []" and "list_all is_ascii_letter t"
  shows "simplified_code x = t"
proof -
  from assms have "matches_trailing_token (toLowerCase x)"
    by (auto simp: matches_trailing_token_iff)
  moreover from assms(3) have "CHR ''/'' \<notin> set t"
    using slash_not_letter by (auto simp: list_all_iff)
  then have "lastIndexOf (p @ CHR ''/'' # t) CHR ''/'' = int (length p)"
    by (rule lastIndexOf_last)
  moreover have "nat (int (length p) + 1) = Suc (length p)"
    by simp
  ultimately show ?thesis
    using assms(1) by (simp add: simplified_code_def substring_def)
qed

lemma normalizeLanguageId_no_map:
  "lookupMap opts = None \<Longrightarrow> normalizeLanguageId v (Some opts) = normalizeLanguageId v None"
  by (simp add: normalizeLanguageId_def)

lemma normalize_en:
  "normalizeLanguageId (JStr ''en'') None = Inr (Text ''http://vocab.getty.edu/aat/300388277'')"
  by code_simp

lemma normalize_fr:
  "normalizeLanguageId (JStr ''fr'') None = Inr (Text ''http://vocab.getty.edu/aat/300388306'')"
  by code_simp

lemma getLanguageId_string:
  "get_field obj ''language'' = JStr s \<Longrightarrow>
   getLanguageId obj opts =
     (case normalizeLanguageId (JStr s) opts of Inl e \<Rightarrow> Inl e | Inr v \<Rightarrow> Inr [v])"
  by (auto simp: getLanguageId_def is_nullish_def get_field_def)

lemma normalize_returns:
  "string_or_absent v \<Longrightarrow> \<exists>r. normalizeLanguageId v opts = Inr r"
  by (cases v)
    (auto simp: string_or_absent_def is_nullish_def is_string_def normalizeLanguageId_def Let_def
      split: option.splits)

lemma normalize_with_map:
  "lookupMap opts = Some m \<Longrightarrow>
   normalizeLanguageId (JStr y) (Some opts) =
     (case property_lookup m (simplified_code y) of Some l \<Rightarrow> Inr l | None \<Rightarrow> Inr (Text y))"
  by (simp add: normalizeLanguageId_def is_nullish_def)

lemma default_keys:
  "map_of DEFAULT_LANGUAGE_LOOKUP x = Some d \<Longrightarrow> x = ''en'' \<or> x = ''es'' \<or> x = ''fr''"
  by (auto simp: DEFAULT_LANGUAGE_LOOKUP_def split: if_splits)

lemma simplified_en: "simplified_code ''en'' = ''en''"
  by code_simp

lemma simplified_es: "simplified_code ''es'' = ''es''"
  by code_simp

lemma simplified_fr: "simplified_code ''fr'' = ''fr''"
  by code_simp

lemma default_key_simplified:
  "map_of DEFAULT_LANGUAGE_LOOKUP x = Some d \<Longrightarrow>
   simplified_code x = x \<and> x \<notin> set object_prototype_names"
  by (auto dest!: default_keys
      simp: simplified_en simplified_es simplified_fr object_prototype_names_def)

text \<open>
  The identity fallback of \<open>normalizeLanguageId\<close>: an identifier whose simplified code is
  neither a key of the active table nor a name inherited from \<open>Object.prototype\<close> comes
  back as it was given.
\<close>

lemma normalize_unknown_code:
  assumes "map_of table (simplified_code x) = None"
      and "simplified_code x \<notin> set object_prototype_names"
      and "table = (case languageOptions of
                      None \<Rightarrow> DEFAULT_LANGUAGE_LOOKUP
                    | Some opts \<Rightarrow>
                        (case lookupMap opts of None \<Rightarrow> DEFAULT_LANGUAGE_LOOKUP | Some m \<Rightarrow> m))"
  shows "normalizeLanguageId (JStr x) languageOptions = Inr (Text x)"
  using assms by (simp add: normalizeLanguageId_def is_nullish_def property_lookup_def)

lemma set_add_not_empty: "set_add members x \<noteq> []"
  by (cases members) (auto simp: set_add_def)

lemma add_language_empty:
  "add_language acc lang = [] \<longleftrightarrow> acc = [] \<and> \<not> usable_entry lang"
  by (auto simp: add_language_def usable_entry_def set_add_not_empty)

lemma foldl_add_language_empty:
  "foldl add_language acc langs = [] \<longleftrightarrow> acc = [] \<and> \<not> list_ex usable_entry langs"
  by (induction langs arbitrary: acc) (auto simp: add_language_empty)

lemma normalize_each_length:
  "normalize_each items opts = Inr ids \<Longrightarrow> length ids = length items"
  by (induction items arbitrary: ids) (auto split: sum.splits)

lemma getLanguageId_array:
  "get_field obj ''language'' = JArr langs \<Longrightarrow>
   getLanguageId obj opts = normalize_each (foldl add_language [] langs) opts"
  by (auto simp: getLanguageId_def is_nullish_def get_field_def)

lemma set_add_strings:
  "list_all is_string members \<Longrightarrow> is_string x \<Longrightarrow> list_all is_string (set_add members x)"
  by (simp add: set_add_def)

lemma add_language_strings:
  "list_all is_string acc \<Longrightarrow> language_entry_ok lang \<Longrightarrow>
   list_all is_string (add_language acc lang)"
  by (auto simp: add_language_def language_entry_ok_def set_add_strings is_string_def
      split: if_splits)

lemma foldl_add_language_strings:
  "list_all is_string acc \<Longrightarrow> list_all language_entry_ok langs \<Longrightarrow>
   list_all is_string (foldl add_language acc langs)"
  by (induction langs arbitrary: acc) (simp_all add: add_language_strings)

lemma normalize_each_returns:
  "list_all is_string items \<Longrightarrow> \<exists>ids. normalize_each items opts = Inr ids"
proof (induction items)
  case Nil
  then show ?case by simp
next
  case (Cons item items)
  then have "string_or_absent item"
    by (simp add: string_or_absent_def)
  then obtain v where "normalizeLanguageId item opts = Inr v"
    using normalize_returns by blast
  moreover from Cons obtain vs where "normalize_each items opts = Inr vs"
    by auto
  ultimately show ?case by simp
qed

lemma getLanguageId_returns:
  assumes "language_attribute_ok fragment"
  shows "\<exists>ids. getLanguageId fragment opts = Inr ids"
proof (cases "is_nullish fragment \<or> is_nullish (get_field fragment ''language'')")
  case True
  then show ?thesis by (simp add: getLanguageId_def)
next
  case False
  then have present: "\<not> is_nullish fragment" "\<not> is_nullish (get_field fragment ''language'')"
    by simp_all
  show ?thesis
  proof (cases "get_field fragment ''language''")
    case (JStr s)
    obtain v where "normalizeLanguageId (JStr s) opts = Inr v"
      using normalize_returns [of "JStr s" opts]
      by (auto simp: string_or_absent_def is_string_def)
    with JStr present show ?thesis by (simp add: getLanguageId_def)
  next
    case (JArr langs)
    with assms present have "list_all language_entry_ok langs"
      by (simp add: language_attribute_ok_def)
    then have "list_all is_string (foldl add_language [] langs)"
      by (simp add: foldl_add_language_strings)
    then obtain ids where "normalize_each (foldl add_language [] langs) opts = Inr ids"
      using normalize_each_returns by blast
    with JArr present show ?thesis by (simp add: getLanguageId_def)
  qed (use assms present in \<open>simp_all add: language_attribute_ok_def is_nullish_def\<close>)
qed

lemma fallback_matches_returns:
  "string_or_absent (fallbackLanguage opts) \<Longrightarrow> \<exists>b. fallback_matches opts ids = Inr b"
  using normalize_returns [of "fallbackLanguage opts" "Some opts"]
  by (auto simp: fallback_matches_def)

lemma loosely_equals_false_returns:
  "convertible v \<Longrightarrow> \<exists>b. loosely_equals_false v = Inr b"
  by (cases v) (auto simp: loosely_equals_false_def)

lemma match_returns:
  assumes "language_attribute_ok fragment" and "string_or_absent language"
      and "string_or_absent (fallbackLanguage opts)"
      and "convertible (includeItemsWithNoLanguage opts)"
  shows "\<exists>b. doesObjectLanguageMatch fragment language (Some opts) = Inr b"
proof -
  obtain ids where 1: "getLanguageId fragment (Some opts) = Inr ids"
    using getLanguageId_returns [OF assms(1)] by blast
  obtain w where 2: "normalizeLanguageId language (Some opts) = Inr w"
    using normalize_returns [OF assms(2)] by blast
  obtain f where 3: "fallback_matches opts ids = Inr f"
    using fallback_matches_returns [OF assms(3)] by blast
  obtain z where 4: "loosely_equals_false (includeItemsWithNoLanguage opts) = Inr z"
    using loosely_equals_false_returns [OF assms(4)] by blast
  show ?thesis
    by (auto simp: doesObjectLanguageMatch_def 1 2 3 4)
qed

lemma set_map_filter: "set (List.map_filter f xs) = {y. \<exists>x\<in>set xs. f x = Some y}"
  by (induction xs) (auto simp: List.map_filter_def)

lemma matches_any_iff:
  "matches_any norm ids requested \<longleftrightarrow> (\<exists>i\<in>set ids. \<exists>r\<in>set requested. norm i = norm r)"
  by (auto simp: matches_any_def list_ex_iff)

section \<open>The claims\<close>

text \<open>
  C1. \<open>doesObjectLanguageMatch\<close> tries the fallback language before the no-language
  rule. For every fragment whose \<open>language\<close> is the string \<open>"fr"\<close>, a request for
  \<open>"en"\<close> with \<open>{fallbackLanguage: "fr", includeItemsWithNoLanguage: false}\<close> gives
  true, and with \<open>{}\<close> (or no options at all) it gives false. On the fragment with
  \<open>language: ["fr", undefined]\<close>, where both rules apply, the fallback wins over the
  opt-out.
\<close>

theorem fallback_before_no_language:
  assumes "get_field fragment ''language'' = JStr ''fr''"
  shows "doesObjectLanguageMatch fragment (JStr ''en'')
           (Some \<lparr>fallbackLanguage = JStr ''fr'', includeItemsWithNoLanguage = JBool False,
                  lookupMap = None\<rparr>) = Inr True
       \<and> doesObjectLanguageMatch fragment (JStr ''en'') (Some empty_options) = Inr False
       \<and> doesObjectLanguageMatch fragment (JStr ''en'') None = Inr False
       \<and> doesObjectLanguageMatch (JObj [(''language'', JArr [JStr ''fr'', JUndefined])]) (JStr ''en'')
           (Some \<lparr>fallbackLanguage = JStr ''fr'', includeItemsWithNoLanguage = JBool False,
                  lookupMap = None\<rparr>) = Inr True
       \<and> doesObjectLanguageMatch (JObj [(''language'', JArr [JStr ''fr'', JUndefined])]) (JStr ''en'')
           (Some \<lparr>fallbackLanguage = JUndefined, includeItemsWithNoLanguage = JBool False,
                  lookupMap = None\<rparr>) = Inr False"
proof -
  have single: "doesObjectLanguageMatch fragment (JStr ''en'')
           (Some \<lparr>fallbackLanguage = JStr ''fr'', includeItemsWithNoLanguage = JBool False,
                  lookupMap = None\<rparr>) = Inr True
       \<and> doesObjectLanguageMatch fragment (JStr ''en'') (Some empty_options) = Inr False
       \<and> doesObjectLanguageMatch fragment (JStr ''en'') None = Inr False"
    using assms
    by (simp add: doesObjectLanguageMatch_def getLanguageId_string normalizeLanguageId_no_map
        normalize_en normalize_fr fallback_matches_def is_nullish_def empty_options_def
        NO_LANGUAGE_def)
  have both: "doesObjectLanguageMatch (JObj [(''language'', JArr [JStr ''fr'', JUndefined])]) (JStr ''en'')
           (Some \<lparr>fallbackLanguage = JStr ''fr'', includeItemsWithNoLanguage = JBool False,
                  lookupMap = None\<rparr>) = Inr True"
    by code_simp
  have opt_out: "doesObjectLanguageMatch (JObj [(''language'', JArr [JStr ''fr'', JUndefined])]) (JStr ''en'')
           (Some \<lparr>fallbackLanguage = JUndefined, includeItemsWithNoLanguage = JBool False,
                  lookupMap = None\<rparr>) = Inr False"
    by code_simp
  from single both opt_out show ?thesis by simp
qed

theorem fallback_before_no_language_witness:
  "doesObjectLanguageMatch (JObj [(''language'', JStr ''fr'')]) (JStr ''en'')
           (Some \<lparr>fallbackLanguage = JStr ''fr'', includeItemsWithNoLanguage = JBool False,
                  lookupMap = None\<rparr>) = Inr True
   \<and> doesObjectLanguageMatch (JObj [(''language'', JStr ''fr'')]) (JStr ''en'') (Some empty_options)
       = Inr False"
proof -
  have h: "get_field (JObj [(''language'', JStr ''fr'')]) ''language'' = JStr ''fr''"
    by (simp add: get_field_def)
  from fallback_before_no_language [OF h] show ?thesis by simp
qed

text \<open>
  C2. At the identifier \<open>"constructor"\<close>, whose simplified code is not a key of the
  default table, \<open>normalizeLanguageId\<close> does not return the identifier: the lookup
  \<open>lookupMap["constructor"]\<close> finds the function that every plain object inherits.
\<close>

theorem normalize_constructor_is_inherited:
  "map_of DEFAULT_LANGUAGE_LOOKUP (simplified_code ''constructor'') = None
   \<and> normalizeLanguageId (JStr ''constructor'') None = Inr (Inherited ''constructor'')
   \<and> normalizeLanguageId (JStr ''constructor'') None \<noteq> Inr (Text ''constructor'')"
proof -
  have code: "simplified_code ''constructor'' = ''constructor''"
    by code_simp
  have result: "normalizeLanguageId (JStr ''constructor'') None = Inr (Inherited ''constructor'')"
    by code_simp
  show ?thesis
    by (simp add: code result DEFAULT_LANGUAGE_LOOKUP_def)
qed

text \<open>
  C3. On \<open>{language: ["en", "EN"]}\<close> the list \<open>getLanguageId\<close> returns holds the same
  identifier twice: the \<open>Set\<close> removes duplicates among the raw entries, before they are
  normalized, and nothing removes them afterwards.
\<close>

theorem getLanguageId_returns_duplicates:
  "getLanguageId (JObj [(''language'', JArr [JStr ''en'', JStr ''EN''])]) None =
     Inr [Text ''http://vocab.getty.edu/aat/300388277'',
          Text ''http://vocab.getty.edu/aat/300388277'']"
  by code_simp

text \<open>
  C4. \<open>getLanguageId\<close> returns exactly \<open>[NO_LANGUAGE]\<close> for an undefined or null
  fragment and for a fragment whose \<open>language\<close> is absent, and a list of one identifier
  for a string \<open>language\<close>. For an array \<open>language\<close> the list it returns is empty
  exactly when no entry of the array is undefined, null, a string or a carrier of an \<open>id\<close>
  that counts as true; so the result can be empty.
\<close>

theorem getLanguageId_shape:
  "(is_nullish obj \<or> is_nullish (get_field obj ''language'') \<longrightarrow>
      getLanguageId obj opts = Inr [Text NO_LANGUAGE])
   \<and> (get_field obj ''language'' = JStr s \<longrightarrow> (\<exists>v. getLanguageId obj opts = Inr [v]))
   \<and> (get_field obj ''language'' = JArr langs \<and> getLanguageId obj opts = Inr ids \<longrightarrow>
      (ids = [] \<longleftrightarrow> \<not> list_ex usable_entry langs))"
proof (intro conjI impI)
  assume "is_nullish obj \<or> is_nullish (get_field obj ''language'')"
  then show "getLanguageId obj opts = Inr [Text NO_LANGUAGE]"
    by (simp add: getLanguageId_def)
next
  assume language: "get_field obj ''language'' = JStr s"
  obtain v where "normalizeLanguageId (JStr s) opts = Inr v"
    using normalize_returns [of "JStr s" opts]
    by (auto simp: string_or_absent_def is_string_def)
  with language show "\<exists>v. getLanguageId obj opts = Inr [v]"
    by (simp add: getLanguageId_string)
next
  assume "get_field obj ''language'' = JArr langs \<and> getLanguageId obj opts = Inr ids"
  then have "normalize_each (foldl add_language [] langs) opts = Inr ids"
    by (auto simp: getLanguageId_array)
  then have "length ids = length (foldl add_language [] langs)"
    by (rule normalize_each_length)
  then have "ids = [] \<longleftrightarrow> foldl add_language [] langs = []"
    by auto
  then show "ids = [] \<longleftrightarrow> \<not> list_ex usable_entry langs"
    by (simp add: foldl_add_language_empty)
qed

theorem getLanguageId_shape_witness:
  "getLanguageId JUndefined None = Inr [Text NO_LANGUAGE]
   \<and> getLanguageId (JObj [(''content'', JStr ''test'')]) None = Inr [Text NO_LANGUAGE]
   \<and> (\<exists>v. getLanguageId (JObj [(''language'', JStr ''cy'')]) None = Inr [v])
   \<and> getLanguageId (JObj [(''language'', JArr [JNum 3, JObj []])]) None = Inr []
   \<and> \<not> list_ex usable_entry [JNum 3, JObj []]"
proof -
  have empty: "getLanguageId (JObj [(''language'', JArr [JNum 3, JObj []])]) None = Inr []"
    by code_simp
  have "\<not> list_ex usable_entry [JNum 3, JObj []]"
    using getLanguageId_shape
      [of "JObj [(''language'', JArr [JNum 3, JObj []])]" None "[]" "[JNum 3, JObj []]" "[]"] empty
    by (simp add: get_field_def)
  with empty show ?thesis
    using getLanguageId_shape [of JUndefined None "[]" "[]" "[]"]
      getLanguageId_shape [of "JObj [(''content'', JStr ''test'')]" None "[]" "[]" "[]"]
      getLanguageId_shape [of "JObj [(''language'', JStr ''cy'')]" None "''cy''" "[]" "[]"]
    by (simp add: get_field_def is_nullish_def)
qed

text \<open>The list is empty for \<open>{language: []}\<close>.\<close>

theorem getLanguageId_empty_array:
  "getLanguageId (JObj [(''language'', JArr [])]) None = Inr []"
  by code_simp

text \<open>
  C5. When the primary and the fallback rule fail and the fragment's identifiers contain
  \<open>NO_LANGUAGE\<close> (or there are none), \<open>doesObjectLanguageMatch\<close> excludes the fragment
  exactly when \<open>includeItemsWithNoLanguage == false\<close> holds under loose equality: the
  values \<open>false\<close>, \<open>0\<close> and the empty string exclude it, the values \<open>true\<close>,
  \<open>null\<close> and \<open>undefined\<close> (an absent option) include it.
\<close>

theorem no_language_opt_out:
  assumes ids: "getLanguageId fragment (Some opts) = Inr lang_ids"
      and wanted: "normalizeLanguageId language (Some opts) = Inr wanted"
      and requested: "\<not> is_nullish language"
      and primary: "wanted \<notin> set lang_ids"
      and fallback: "fallback_matches opts lang_ids = Inr False"
      and unlabelled: "Text NO_LANGUAGE \<in> set lang_ids \<or> lang_ids = []"
  shows "doesObjectLanguageMatch fragment language (Some opts) =
           (case loosely_equals_false (includeItemsWithNoLanguage opts) of
              Inl e \<Rightarrow> Inl e
            | Inr opted_out \<Rightarrow> Inr (\<not> opted_out))
       \<and> (includeItemsWithNoLanguage opts = JBool False \<or> includeItemsWithNoLanguage opts = JNum 0
            \<or> includeItemsWithNoLanguage opts = JStr [] \<longrightarrow>
          doesObjectLanguageMatch fragment language (Some opts) = Inr False)
       \<and> (includeItemsWithNoLanguage opts = JBool True \<or> includeItemsWithNoLanguage opts = JNull
            \<or> includeItemsWithNoLanguage opts = JUndefined \<longrightarrow>
          doesObjectLanguageMatch fragment language (Some opts) = Inr True)"
proof -
  have empty_text: "string_to_number_is_zero []"
    by (simp add: string_to_number_is_zero_def trim_def)
  have general: "doesObjectLanguageMatch fragment language (Some opts) =
           (case loosely_equals_false (includeItemsWithNoLanguage opts) of
              Inl e \<Rightarrow> Inl e
            | Inr opted_out \<Rightarrow> Inr (\<not> opted_out))"
    using assms by (auto simp: doesObjectLanguageMatch_def split: sum.splits)
  show ?thesis
    unfolding general
    by (auto simp: loosely_equals_false_def empty_text)
qed

theorem no_language_opt_out_witness:
  "doesObjectLanguageMatch (JObj [(''content'', JStr ''test'')]) (JStr ''en'')
     (Some \<lparr>fallbackLanguage = JStr ''fr'', includeItemsWithNoLanguage = JStr [],
            lookupMap = None\<rparr>) = Inr False"
proof -
  let ?opts = "\<lparr>fallbackLanguage = JStr ''fr'', includeItemsWithNoLanguage = JStr [],
                 lookupMap = None\<rparr>"
  have ids: "getLanguageId (JObj [(''content'', JStr ''test'')]) (Some ?opts) = Inr [Text NO_LANGUAGE]"
    by code_simp
  have wanted: "normalizeLanguageId (JStr ''en'') (Some ?opts) =
      Inr (Text ''http://vocab.getty.edu/aat/300388277'')"
    by code_simp
  have requested: "\<not> is_nullish (JStr ''en'')"
    by (simp add: is_nullish_def)
  have primary: "Text ''http://vocab.getty.edu/aat/300388277'' \<notin> set [Text NO_LANGUAGE]"
    by (simp add: NO_LANGUAGE_def)
  have fallback: "fallback_matches ?opts [Text NO_LANGUAGE] = Inr False"
    by code_simp
  have unlabelled: "Text NO_LANGUAGE \<in> set [Text NO_LANGUAGE] \<or> [Text NO_LANGUAGE] = []"
    by simp
  from no_language_opt_out
         [OF ids wanted requested primary fallback unlabelled, THEN conjunct2, THEN conjunct1]
  show ?thesis by simp
qed

text \<open>
  The option \<open>includeItemsWithNoLanguage: 0\<close> excludes a fragment without a language,
  though 0 is not the boolean \<open>false\<close>.
\<close>

theorem zero_opts_out_of_no_language:
  "getLanguageId (JObj [(''content'', JStr ''test'')])
     (Some \<lparr>fallbackLanguage = JUndefined, includeItemsWithNoLanguage = JNum 0,
            lookupMap = None\<rparr>) = Inr [Text NO_LANGUAGE]
   \<and> JNum 0 \<noteq> JBool False
   \<and> doesObjectLanguageMatch (JObj [(''content'', JStr ''test'')]) (JStr ''en'')
       (Some \<lparr>fallbackLanguage = JUndefined, includeItemsWithNoLanguage = JNum 0,
              lookupMap = None\<rparr>) = Inr False"
proof -
  have ids: "getLanguageId (JObj [(''content'', JStr ''test'')])
     (Some \<lparr>fallbackLanguage = JUndefined, includeItemsWithNoLanguage = JNum 0,
            lookupMap = None\<rparr>) = Inr [Text NO_LANGUAGE]"
    by code_simp
  have result: "doesObjectLanguageMatch (JObj [(''content'', JStr ''test'')]) (JStr ''en'')
       (Some \<lparr>fallbackLanguage = JUndefined, includeItemsWithNoLanguage = JNum 0,
              lookupMap = None\<rparr>) = Inr False"
    by code_simp
  from ids result show ?thesis by simp
qed

text \<open>
  C6. On well-typed input the three helpers return normally: \<open>normalizeLanguageId\<close>
  for an identifier that is undefined, null or a string; \<open>getLanguageId\<close> for a fragment
  that is absent or whose \<open>language\<close> is absent, a string, or an array of entries that are
  absent, strings, or carry an \<open>id\<close> that is a string or counts as false; and
  \<open>doesObjectLanguageMatch\<close> for such a fragment and requested language, when the
  fallback language is a string or absent and \<open>includeItemsWithNoLanguage\<close> converts to a
  primitive.
\<close>

theorem returns_normally_on_well_typed_input:
  assumes "language_attribute_ok fragment" and "string_or_absent language"
      and "string_or_absent (fallbackLanguage opts)"
      and "convertible (includeItemsWithNoLanguage opts)"
  shows "(\<exists>v. normalizeLanguageId language languageOptions = Inr v)
       \<and> (\<exists>ids. getLanguageId fragment languageOptions = Inr ids)
       \<and> (\<exists>b. doesObjectLanguageMatch fragment language (Some opts) = Inr b)
       \<and> (\<exists>b. doesObjectLanguageMatch fragment language None = Inr b)"
proof -
  have "\<exists>b. doesObjectLanguageMatch fragment language (Some empty_options) = Inr b"
    using assms(1,2)
    by (intro match_returns) (simp_all add: empty_options_def string_or_absent_def is_nullish_def)
  then have "\<exists>b. doesObjectLanguageMatch fragment language None = Inr b"
    by (simp add: doesObjectLanguageMatch_def)
  with assms show ?thesis
    by (simp add: normalize_returns getLanguageId_returns match_returns)
qed

theorem returns_normally_on_well_typed_input_witness:
  "(\<exists>v. normalizeLanguageId (JStr ''de'') None = Inr v)
   \<and> (\<exists>ids. getLanguageId
         (JObj [(''language'', JArr [JStr ''de'', JUndefined, JObj [(''id'', JStr ''en'')], JObj []])])
         None = Inr ids)
   \<and> (\<exists>b. doesObjectLanguageMatch
         (JObj [(''language'', JArr [JStr ''de'', JUndefined, JObj [(''id'', JStr ''en'')], JObj []])])
         (JStr ''de'')
         (Some \<lparr>fallbackLanguage = JStr ''en'', includeItemsWithNoLanguage = JArr [JNum 1],
                lookupMap = Some [(''de'', ''german'')]\<rparr>) = Inr b)"
proof -
  let ?fragment =
    "JObj [(''language'', JArr [JStr ''de'', JUndefined, JObj [(''id'', JStr ''en'')], JObj []])]"
  let ?opts = "\<lparr>fallbackLanguage = JStr ''en'', includeItemsWithNoLanguage = JArr [JNum 1],
                 lookupMap = Some [(''de'', ''german'')]\<rparr>"
  have 1: "language_attribute_ok ?fragment"
    by code_simp
  have 2: "string_or_absent (JStr ''de'')"
    by code_simp
  have 3: "string_or_absent (fallbackLanguage ?opts)"
    by code_simp
  have 4: "convertible (includeItemsWithNoLanguage ?opts)"
    by code_simp
  from returns_normally_on_well_typed_input [OF 1 2 3 4, of None] show ?thesis
    by blast
qed

text \<open>
  A number as the language identifier, or as the \<open>language\<close> of a fragment, ends in a
  TypeError.
\<close>

theorem throws_on_ill_typed_input:
  "normalizeLanguageId (JNum 5) None = Inl TypeError
   \<and> getLanguageId (JObj [(''language'', JNum 5)]) None = Inl TypeError
   \<and> doesObjectLanguageMatch (JObj []) (JNum 5) None = Inl TypeError"
  by code_simp

text \<open>
  C7. A supplied \<open>lookupMap\<close> replaces the default table. An identifier that is a key of
  the default table and not of the supplied map comes back unchanged, not as the default
  table's identifier; and for every identifier the result is read from the supplied map
  alone.
\<close>

theorem custom_map_replaces_default:
  assumes default: "map_of DEFAULT_LANGUAGE_LOOKUP x = Some d"
      and supplied: "lookupMap opts = Some m"
      and absent: "map_of m x = None"
  shows "normalizeLanguageId (JStr x) (Some opts) = Inr (Text x)
       \<and> normalizeLanguageId (JStr x) None = Inr (Text d)
       \<and> normalizeLanguageId (JStr y) (Some opts) =
           (case property_lookup m (simplified_code y) of
              Some l \<Rightarrow> Inr l
            | None \<Rightarrow> Inr (Text y))"
proof -
  from default have code: "simplified_code x = x" and own: "x \<notin> set object_prototype_names"
    by (simp_all add: default_key_simplified)
  from absent own have "property_lookup m x = None"
    by (simp add: property_lookup_def)
  with supplied code have custom: "normalizeLanguageId (JStr x) (Some opts) = Inr (Text x)"
    by (simp add: normalize_with_map)
  from default code have standard: "normalizeLanguageId (JStr x) None = Inr (Text d)"
    by (simp add: normalizeLanguageId_def is_nullish_def property_lookup_def)
  from custom standard supplied show ?thesis
    by (simp add: normalize_with_map)
qed

theorem custom_map_replaces_default_witness:
  "normalizeLanguageId (JStr ''en'')
     (Some \<lparr>fallbackLanguage = JUndefined, includeItemsWithNoLanguage = JUndefined,
            lookupMap = Some [(''el'', ''greek'')]\<rparr>) = Inr (Text ''en'')
   \<and> normalizeLanguageId (JStr ''en'') None = Inr (Text ''http://vocab.getty.edu/aat/300388277'')"
proof -
  have default:
    "map_of DEFAULT_LANGUAGE_LOOKUP ''en'' = Some ''http://vocab.getty.edu/aat/300388277''"
    by (simp add: DEFAULT_LANGUAGE_LOOKUP_def)
  have supplied:
    "lookupMap \<lparr>fallbackLanguage = JUndefined, includeItemsWithNoLanguage = JUndefined,
                lookupMap = Some [(''el'', ''greek'')]\<rparr> = Some [(''el'', ''greek'')]"
    by simp
  have absent: "map_of [(''el'', ''greek'')] ''en'' = None"
    by simp
  from custom_map_replaces_default [where y = "[]", OF default supplied absent] show ?thesis
    by blast
qed

text \<open>
  C8. The classification filter looks one level below an entry's classifications and no
  further. An entry matches exactly when the id of one of its \<open>classified_as\<close> entries,
  or an id in the \<open>classified_as\<close> of one of those entries, is equal after normalization
  to a requested id. Filtering
  \<open>[{classified_as: [{id: "X", classified_as: [{id: "Y"}]}]}]\<close> by \<open>"Y"\<close> returns the
  entry; when \<open>"Y"\<close> sits one level deeper, below \<open>"X"\<close> and \<open>"Z"\<close>, and neither of
  those normalizes to what \<open>"Y"\<close> does, the entry is not returned.
\<close>

theorem classification_filter_one_level:
  "filterByClassification norm
     (JArr [JObj [(''classified_as'',
              JArr [JObj [(''id'', JStr ''X''),
                          (''classified_as'', JArr [JObj [(''id'', JStr ''Y'')]])]])]])
     (JStr ''Y'') JUndefined None =
   [JObj [(''classified_as'',
              JArr [JObj [(''id'', JStr ''X''),
                          (''classified_as'', JArr [JObj [(''id'', JStr ''Y'')]])]])]]
   \<and> (norm ''X'' \<noteq> norm ''Y'' \<and> norm ''Z'' \<noteq> norm ''Y'' \<longrightarrow>
      filterByClassification norm
        (JArr [JObj [(''classified_as'',
                 JArr [JObj [(''id'', JStr ''X''),
                             (''classified_as'',
                               JArr [JObj [(''id'', JStr ''Z''),
                                           (''classified_as'',
                                             JArr [JObj [(''id'', JStr ''Y'')]])]])]])]])
        (JStr ''Y'') JUndefined None = [])
   \<and> (classification_matches norm entry requested \<longleftrightarrow>
        (\<exists>c \<in> set (as_array (get_field entry ''classified_as'')).
           (\<exists>i r. classification_id c = Some i \<and> r \<in> set requested \<and> norm i = norm r) \<or>
           (\<exists>d \<in> set (as_array (get_field c ''classified_as'')).
              \<exists>i r. classification_id d = Some i \<and> r \<in> set requested \<and> norm i = norm r)))"
proof (intro conjI impI)
  show "filterByClassification norm
     (JArr [JObj [(''classified_as'',
              JArr [JObj [(''id'', JStr ''X''),
                          (''classified_as'', JArr [JObj [(''id'', JStr ''Y'')]])]])]])
     (JStr ''Y'') JUndefined None =
   [JObj [(''classified_as'',
              JArr [JObj [(''id'', JStr ''X''),
                          (''classified_as'', JArr [JObj [(''id'', JStr ''Y'')]])]])]]"
    by (simp add: filterByClassification_def as_array_def classification_matches_def
        matches_any_def classification_ids_def classification_id_def get_field_def
        requested_ids_def List.map_filter_def doesObjectLanguageMatch_def is_nullish_def)
next
  assume "norm ''X'' \<noteq> norm ''Y'' \<and> norm ''Z'' \<noteq> norm ''Y''"
  then show "filterByClassification norm
        (JArr [JObj [(''classified_as'',
                 JArr [JObj [(''id'', JStr ''X''),
                             (''classified_as'',
                               JArr [JObj [(''id'', JStr ''Z''),
                                           (''classified_as'',
                                             JArr [JObj [(''id'', JStr ''Y'')]])]])]])]])
        (JStr ''Y'') JUndefined None = []"
    by (simp add: filterByClassification_def as_array_def classification_matches_def
        matches_any_def classification_ids_def classification_id_def get_field_def
        requested_ids_def List.map_filter_def doesObjectLanguageMatch_def is_nullish_def)
next
  show "classification_matches norm entry requested \<longleftrightarrow>
        (\<exists>c \<in> set (as_array (get_field entry ''classified_as'')).
           (\<exists>i r. classification_id c = Some i \<and> r \<in> set requested \<and> norm i = norm r) \<or>
           (\<exists>d \<in> set (as_array (get_field c ''classified_as'')).
              \<exists>i r. classification_id d = Some i \<and> r \<in> set requested \<and> norm i = norm r))"
    unfolding classification_matches_def matches_any_iff classification_ids_def set_map_filter
      list_ex_iff
    by blast
qed

theorem classification_filter_one_level_witness:
  "filterByClassification (\<lambda>i. i)
        (JArr [JObj [(''classified_as'',
                 JArr [JObj [(''id'', JStr ''X''),
                             (''classified_as'',
                               JArr [JObj [(''id'', JStr ''Z''),
                                           (''classified_as'',
                                             JArr [JObj [(''id'', JStr ''Y'')]])]])]])]])
        (JStr ''Y'') JUndefined None = []"
  using classification_filter_one_level [of "\<lambda>i. i" "JNull" "[]"]
  by simp

text \<open>
  C9. \<open>getSubfieldInsidePart\<close> returns a list: empty when \<open>object[outerKey]\<close> is absent,
  and otherwise the \<open>innerKey\<close> values found on \<open>object[outerKey]\<close> followed by those
  found on the elements of \<open>object[outerKey].part\<close>. \<open>getCarriedOutBy\<close> is this
  function at \<open>produced_by\<close> and \<open>carried_out_by\<close>. On
  \<open>{produced_by: {part: [{carried_out_by: {id: 123}}]}}\<close> it returns \<open>[{id: 123}]\<close>,
  on \<open>{}\<close> it returns \<open>[]\<close>.
\<close>

theorem subfield_inside_part:
  "getSubfieldInsidePart
     (JObj [(''produced_by'',
             JObj [(''part'', JArr [JObj [(''carried_out_by'', JObj [(''id'', JNum 123)])]])])])
     ''produced_by'' ''carried_out_by'' = [JObj [(''id'', JNum 123)]]
   \<and> getSubfieldInsidePart (JObj []) ''produced_by'' ''carried_out_by'' = []
   \<and> getCarriedOutBy object = getSubfieldInsidePart object ''produced_by'' ''carried_out_by''
   \<and> (is_nullish (get_field object outerKey) \<longrightarrow>
        getSubfieldInsidePart object outerKey innerKey = [])
   \<and> (\<not> is_nullish (get_field object outerKey) \<longrightarrow>
        getSubfieldInsidePart object outerKey innerKey =
          as_array (get_field (get_field object outerKey) innerKey) @
          concat (map (\<lambda>part. as_array (get_field part innerKey))
                    (as_array (get_field (get_field object outerKey) ''part''))))"
proof -
  have nested: "getSubfieldInsidePart
     (JObj [(''produced_by'',
             JObj [(''part'', JArr [JObj [(''carried_out_by'', JObj [(''id'', JNum 123)])]])])])
     ''produced_by'' ''carried_out_by'' = [JObj [(''id'', JNum 123)]]"
    by code_simp
  have none: "getSubfieldInsidePart (JObj []) ''produced_by'' ''carried_out_by'' = []"
    by code_simp
  show ?thesis
    unfolding nested none
    by (simp add: getCarriedOutBy_def PRODUCED_BY_def CARRIED_OUT_BY_def
        getSubfieldInsidePart_def Let_def)
qed

theorem subfield_inside_part_witness:
  "getSubfieldInsidePart
     (JObj [(''produced_by'',
             JObj [(''carried_out_by'', JObj [(''id'', JNum 1)]),
                   (''part'', JArr [JObj [(''carried_out_by'', JObj [(''id'', JNum 2)])]])])])
     ''produced_by'' ''carried_out_by'' = [JObj [(''id'', JNum 1)], JObj [(''id'', JNum 2)]]
   \<and> getSubfieldInsidePart (JObj [(''produced_by'', JNull)]) ''produced_by'' ''carried_out_by'' = []"
  using subfield_inside_part
          [of "JObj [(''produced_by'',
             JObj [(''carried_out_by'', JObj [(''id'', JNum 1)]),
                   (''part'', JArr [JObj [(''carried_out_by'', JObj [(''id'', JNum 2)])]])])]"
            "''produced_by''" "''carried_out_by''"]
        subfield_inside_part
          [of "JObj [(''produced_by'', JNull)]" "''produced_by''" "''carried_out_by''"]
  by (simp add: get_field_def is_nullish_def as_array_def)

text \<open>
  C10. A request whose language is \<open>null\<close> matches every object under every
  \<open>languageOptions\<close>, as one whose language is \<open>undefined\<close> does: the first test is
  \<open>language == undefined\<close>.
\<close>

theorem null_language_matches:
  "doesObjectLanguageMatch object JNull languageOptions = Inr True
   \<and> doesObjectLanguageMatch object JUndefined languageOptions = Inr True"
  by (simp add: doesObjectLanguageMatch_def is_nullish_def Let_def)

end
